theory Spec2Isabelle
  imports Main
begin

section \<open>Go values, types and the store\<close>

text \<open>
  The package \<open>oop\<close> (file \<open>oop.go\<close>) is written against Go's \<open>reflect\<close> and
  \<open>unsafe\<close> packages. The embedding models the part of the Go runtime those calls
  observe: type descriptors, dynamically typed values (\<open>interface{}\<close>), a store of
  allocated variables, and \<open>reflect.Value\<close>. A panic is a value \<open>Inl p\<close> of the
  result type \<open>panic + 'a\<close>.
\<close>

subsection \<open>Kinds and type descriptors\<close>

text \<open>The constants of \<open>reflect.Kind\<close>, in the order of the library.\<close>

datatype kind =
    KInvalid | KBool
  | KInt | KInt8 | KInt16 | KInt32 | KInt64
  | KUint | KUint8 | KUint16 | KUint32 | KUint64 | KUintptr
  | KFloat32 | KFloat64 | KComplex64 | KComplex128
  | KArray | KChan | KFunc | KInterface | KMap | KPtr | KSlice | KString | KStruct
  | KUnsafePointer

text \<open>The predeclared types without components (\<open>unsafe.Pointer\<close> among them).\<close>

datatype basic =
    TBool
  | TInt | TInt8 | TInt16 | TInt32 | TInt64
  | TUint | TUint8 | TUint16 | TUint32 | TUint64 | TUintptr
  | TFloat32 | TFloat64 | TComplex64 | TComplex128
  | TString | TUnsafePointer

datatype chandir = RecvDir | SendDir | BothDir

text \<open>A method is identified by its name together with its signature.\<close>

type_synonym gomethod = string

text \<open>
  A type descriptor. \<open>Defined n u ms pms\<close> is a defined (named) type \<open>type n u\<close>
  with the method set \<open>ms\<close> of \<open>n\<close> and the method set \<open>pms\<close> of \<open>*n\<close>, as
  the compiler records them in the descriptors of \<open>n\<close> and of \<open>*n\<close>. Identity of
  types is equality of descriptors. Struct tags and package paths are not modelled.
\<close>

datatype gotype =
    Basic basic
  | ArrayT nat gotype
  | ChanT chandir gotype
  | FuncT "gotype list" "gotype list" bool
  | InterfaceT "gomethod list"
  | MapT gotype gotype
  | PtrT gotype
  | SliceT gotype
  | StructT "(string \<times> gotype) list"
  | Defined string gotype "gomethod list" "gomethod list"

fun basic_kind :: "basic \<Rightarrow> kind" where
  "basic_kind TBool = KBool"
| "basic_kind TInt = KInt"
| "basic_kind TInt8 = KInt8"
| "basic_kind TInt16 = KInt16"
| "basic_kind TInt32 = KInt32"
| "basic_kind TInt64 = KInt64"
| "basic_kind TUint = KUint"
| "basic_kind TUint8 = KUint8"
| "basic_kind TUint16 = KUint16"
| "basic_kind TUint32 = KUint32"
| "basic_kind TUint64 = KUint64"
| "basic_kind TUintptr = KUintptr"
| "basic_kind TFloat32 = KFloat32"
| "basic_kind TFloat64 = KFloat64"
| "basic_kind TComplex64 = KComplex64"
| "basic_kind TComplex128 = KComplex128"
| "basic_kind TString = KString"
| "basic_kind TUnsafePointer = KUnsafePointer"

fun basic_name :: "basic \<Rightarrow> string" where
  "basic_name TBool = ''bool''"
| "basic_name TInt = ''int''"
| "basic_name TInt8 = ''int8''"
| "basic_name TInt16 = ''int16''"
| "basic_name TInt32 = ''int32''"
| "basic_name TInt64 = ''int64''"
| "basic_name TUint = ''uint''"
| "basic_name TUint8 = ''uint8''"
| "basic_name TUint16 = ''uint16''"
| "basic_name TUint32 = ''uint32''"
| "basic_name TUint64 = ''uint64''"
| "basic_name TUintptr = ''uintptr''"
| "basic_name TFloat32 = ''float32''"
| "basic_name TFloat64 = ''float64''"
| "basic_name TComplex64 = ''complex64''"
| "basic_name TComplex128 = ''complex128''"
| "basic_name TString = ''string''"
| "basic_name TUnsafePointer = ''Pointer''"

text \<open>The underlying type: the type literal a chain of type definitions ends in.\<close>

fun underlying :: "gotype \<Rightarrow> gotype" where
  "underlying (Defined n u ms pms) = underlying u"
| "underlying (Basic b) = Basic b"
| "underlying (ArrayT n t) = ArrayT n t"
| "underlying (ChanT d t) = ChanT d t"
| "underlying (FuncT ins outs v) = FuncT ins outs v"
| "underlying (InterfaceT ms) = InterfaceT ms"
| "underlying (MapT k t) = MapT k t"
| "underlying (PtrT t) = PtrT t"
| "underlying (SliceT t) = SliceT t"
| "underlying (StructT fs) = StructT fs"

text \<open>\<open>Type.Kind()\<close>.\<close>

fun Type_Kind :: "gotype \<Rightarrow> kind" where
  "Type_Kind (Defined n u ms pms) = Type_Kind u"
| "Type_Kind (Basic b) = basic_kind b"
| "Type_Kind (ArrayT n t) = KArray"
| "Type_Kind (ChanT d t) = KChan"
| "Type_Kind (FuncT ins outs v) = KFunc"
| "Type_Kind (InterfaceT ms) = KInterface"
| "Type_Kind (MapT k t) = KMap"
| "Type_Kind (PtrT t) = KPtr"
| "Type_Kind (SliceT t) = KSlice"
| "Type_Kind (StructT fs) = KStruct"

text \<open>\<open>Type.Name()\<close>: the name of a defined or predeclared type, empty otherwise.\<close>

fun Type_Name :: "gotype \<Rightarrow> string" where
  "Type_Name (Defined n u ms pms) = n"
| "Type_Name (Basic b) = basic_name b"
| "Type_Name t = []"

text \<open>\<open>Type.Elem()\<close> of a pointer type, and \<open>reflect.PtrTo\<close>.\<close>

fun Type_Elem :: "gotype \<Rightarrow> gotype" where
  "Type_Elem (Defined n u ms pms) = Type_Elem u"
| "Type_Elem (PtrT t) = t"
| "Type_Elem (ArrayT n t) = t"
| "Type_Elem (ChanT d t) = t"
| "Type_Elem (MapT k t) = t"
| "Type_Elem (SliceT t) = t"
| "Type_Elem t = t"

definition PtrTo :: "gotype \<Rightarrow> gotype" where
  "PtrTo t = PtrT t"

subsection \<open>Values\<close>

text \<open>
  An address is a natural number, \<open>0\<close> the nil pointer. The representation of a value
  without its type: a number stands for its bits (integers, floating point and complex
  numbers alike; only zero is told apart), a string carries the address of its bytes,
  a channel, function, map, pointer or \<open>unsafe.Pointer\<close> is one address, a slice has
  the address of its first element, its length and its capacity, and a value of
  interface type holds a dynamically typed value or nothing.
\<close>

type_synonym addr = nat

datatype data =
    DBool bool
  | DNum int
  | DString addr string
  | DRef addr
  | DSlice addr nat nat
  | DArray "data list"
  | DStruct "data list"
  | DIface "(gotype \<times> data) option"

text \<open>
  A value of type \<open>interface{}\<close> (\<open>any\<close>): \<open>None\<close> is the nil interface, and
  \<open>Some (t, d)\<close> holds a value \<open>d\<close> of dynamic type \<open>t\<close>.
\<close>

type_synonym any = "(gotype \<times> data) option"

fun basic_zero :: "basic \<Rightarrow> data" where
  "basic_zero TBool = DBool False"
| "basic_zero TString = DString 0 []"
| "basic_zero TUnsafePointer = DRef 0"
| "basic_zero b = DNum 0"

text \<open>The zero value of a type.\<close>

fun zero_data :: "gotype \<Rightarrow> data" where
  "zero_data (Basic b) = basic_zero b"
| "zero_data (ArrayT n t) = DArray (replicate n (zero_data t))"
| "zero_data (ChanT d t) = DRef 0"
| "zero_data (FuncT ins outs v) = DRef 0"
| "zero_data (InterfaceT ms) = DIface None"
| "zero_data (MapT k t) = DRef 0"
| "zero_data (PtrT t) = DRef 0"
| "zero_data (SliceT t) = DSlice 0 0 0"
| "zero_data (StructT fs) = DStruct (map (\<lambda>f. zero_data (snd f)) fs)"
| "zero_data (Defined n u ms pms) = zero_data u"

text \<open>Whether a reference is nil, and the address a reference holds.\<close>

fun data_is_nil :: "data \<Rightarrow> bool" where
  "data_is_nil (DRef a) = (a = 0)"
| "data_is_nil (DSlice a n c) = (a = 0)"
| "data_is_nil (DIface x) = (x = None)"
| "data_is_nil d = False"

fun data_addr :: "data \<Rightarrow> addr" where
  "data_addr (DRef a) = a"
| "data_addr (DSlice a n c) = a"
| "data_addr (DString a bs) = a"
| "data_addr d = 0"

text \<open>\<open>Value.IsZero\<close> on the representation.\<close>

fun data_IsZero :: "data \<Rightarrow> bool" where
  "data_IsZero (DBool b) = (b = False)"
| "data_IsZero (DNum n) = (n = 0)"
| "data_IsZero (DString a bs) = (bs = [])"
| "data_IsZero (DRef a) = (a = 0)"
| "data_IsZero (DSlice a n c) = (a = 0)"
| "data_IsZero (DArray ds) = list_all data_IsZero ds"
| "data_IsZero (DStruct ds) = list_all data_IsZero ds"
| "data_IsZero (DIface x) = (x = None)"

subsection \<open>Method sets, assignability\<close>

text \<open>
  The method set a descriptor lists: the methods of an interface type, the methods of
  a defined type, and for a pointer to a defined type the methods of the pointer type
  (none when the base type is itself a pointer or an interface).
\<close>

fun Type_methods :: "gotype \<Rightarrow> gomethod list" where
  "Type_methods (Defined n u ms pms) =
     (case underlying u of InterfaceT ims \<Rightarrow> ims | _ \<Rightarrow> ms)"
| "Type_methods (InterfaceT ims) = ims"
| "Type_methods (PtrT (Defined n u ms pms)) =
     (case underlying u of InterfaceT ims \<Rightarrow> [] | PtrT t \<Rightarrow> [] | _ \<Rightarrow> pms)"
| "Type_methods t = []"

text \<open>
  \<open>implements T V\<close> of package \<open>reflect\<close>: \<open>T\<close> is an interface type and the
  methods of \<open>V\<close> cover those of \<open>T\<close>.
\<close>

definition implements :: "gotype \<Rightarrow> gotype \<Rightarrow> bool" where
  "implements T V =
     (case underlying T of
        InterfaceT ims \<Rightarrow> list_all (\<lambda>m. m \<in> set (Type_methods V)) ims
      | _ \<Rightarrow> False)"

fun Type_ChanDir :: "gotype \<Rightarrow> chandir" where
  "Type_ChanDir (Defined n u ms pms) = Type_ChanDir u"
| "Type_ChanDir (ChanT d t) = d"
| "Type_ChanDir t = BothDir"

text \<open>
  Without tags and package paths, two types are identical when their descriptors are
  equal, and have identical underlying types when the type literals under their names
  are equal; \<open>reflect\<close> holds two interface types with methods for different unless
  they are the same descriptor.
\<close>

definition haveIdenticalUnderlyingType :: "gotype \<Rightarrow> gotype \<Rightarrow> bool" where
  "haveIdenticalUnderlyingType T V =
     (T = V \<or>
      (Type_Kind T = Type_Kind V \<and>
       (if Type_Kind T = KInterface then Type_methods T = [] \<and> Type_methods V = []
        else underlying T = underlying V)))"

definition specialChannelAssignability :: "gotype \<Rightarrow> gotype \<Rightarrow> bool" where
  "specialChannelAssignability T V =
     (Type_ChanDir V = BothDir \<and> (Type_Name T = [] \<or> Type_Name V = []) \<and>
      Type_Elem T = Type_Elem V)"

definition directlyAssignable :: "gotype \<Rightarrow> gotype \<Rightarrow> bool" where
  "directlyAssignable T V =
     (T = V \<or>
      (if Type_Name T \<noteq> [] \<and> Type_Name V \<noteq> [] then False
       else if Type_Kind T \<noteq> Type_Kind V then False
       else if Type_Kind T = KChan \<and> specialChannelAssignability T V then True
       else haveIdenticalUnderlyingType T V))"

subsection \<open>Panics\<close>

text \<open>
  \<open>ValueError m k\<close> is the panic of \<open>reflect\<close> for a call of method \<open>m\<close> on a
  value of kind \<open>k\<close>; \<open>PanicMsg\<close> is a panic with a message; \<open>NilDereference\<close>
  is the runtime's panic for a nil pointer; \<open>BadAccess a\<close> stands for an access
  through \<open>unsafe\<close> to address \<open>a\<close> where the store holds no variable of the type
  the access expects: Go gives such an access no meaning, and the model stops there.
  \<open>OutsideModel\<close> marks a call of the library the model does not cover; no function
  of \<open>oop.go\<close> makes one (lemmas \<open>Cast_covered\<close> and \<open>As_covered\<close>).
\<close>

datatype panic =
    ValueError string kind
  | PanicMsg string
  | NilDereference
  | BadAccess addr
  | OutsideModel

definition and_then :: "panic + 'a \<Rightarrow> ('a \<Rightarrow> panic + 'b) \<Rightarrow> panic + 'b" where
  "and_then m f = (case m of Inl p \<Rightarrow> Inl p | Inr x \<Rightarrow> f x)"

text \<open>\<open>Type.Implements\<close> panics on a type that is not an interface type.\<close>

definition Type_Implements :: "gotype \<Rightarrow> gotype \<Rightarrow> panic + bool" where
  "Type_Implements t u =
     (if Type_Kind u \<noteq> KInterface
      then Inl (PanicMsg ''reflect: non-interface type passed to Type.Implements'')
      else Inr (implements u t))"

definition Type_AssignableTo :: "gotype \<Rightarrow> gotype \<Rightarrow> bool" where
  "Type_AssignableTo t u = (directlyAssignable u t \<or> implements u t)"

subsection \<open>The structs of the package and the store\<close>

record TypeInfo =
  TypeName :: string
  TypeID :: addr

text \<open>
  \<open>Vtables\<close> is a slice of \<open>VtableInfo\<close> (a type identifier and a table address);
  \<open>IsClass\<close> and \<open>Deinit\<close> are function values, \<open>0\<close> when nil. \<open>TypeInfo\<close> is a
  pointer.
\<close>

record ClassInfo =
  Vtables :: "(addr \<times> addr) list"
  TypeInfo :: addr
  Offset :: nat
  IsClass :: addr
  Deinit :: addr

record KlassHeader =
  Info :: addr

record Klass =
  Header :: KlassHeader
  Allocator :: any
  Class :: any

text \<open>
  The store is the sequence of the variables allocated so far. The allocator gives
  each variable a slot of its own: variable number \<open>i\<close> lives at address
  \<open>heap_base + slot * i\<close>, so a new variable has an address no earlier variable has,
  and no variable begins inside the slot of another. Memory is unbounded; sizes, the
  layout inside a variable and pointers into the middle of a variable are not
  modelled.
\<close>

datatype obj =
    Var gotype data
  | KlassObj Klass
  | ClassInfoObj ClassInfo
  | TypeInfoObj TypeInfo

type_synonym heap = "obj list"

definition heap_base :: addr where
  "heap_base = 824633720832"

definition slot :: nat where
  "slot = 64"

definition addr_of :: "nat \<Rightarrow> addr" where
  "addr_of i = heap_base + slot * i"

definition allocated :: "heap \<Rightarrow> addr \<Rightarrow> bool" where
  "allocated s a =
     (heap_base \<le> a \<and> (a - heap_base) mod slot = 0 \<and> (a - heap_base) div slot < length s)"

definition load :: "heap \<Rightarrow> addr \<Rightarrow> obj option" where
  "load s a = (if allocated s a then Some (s ! ((a - heap_base) div slot)) else None)"

definition alloc :: "heap \<Rightarrow> obj \<Rightarrow> addr \<times> heap" where
  "alloc s x = (addr_of (length s), s @ [x])"

definition store :: "heap \<Rightarrow> addr \<Rightarrow> obj \<Rightarrow> heap" where
  "store s a x = (if allocated s a then s[(a - heap_base) div slot := x] else s)"

text \<open>
  What the program observes of its toolchain: whether \<open>Value.Pointer\<close> accepts a
  string (it does from Go 1.23 on; \<open>oop.go\<close> ranges over an integer and so needs at
  least Go 1.22), and the address of the descriptor of each type.
\<close>

record runtime =
  go1_23 :: bool
  rtype_addr :: "gotype \<Rightarrow> addr"

subsection \<open>\<open>reflect.Value\<close>\<close>

text \<open>
  A \<open>reflect.Value\<close> is the zero Value (\<open>Invalid\<close>), a value held by copy and not
  addressable (\<open>Direct\<close>), or the variable at an address (\<open>Indirect\<close>), which is
  what \<open>Elem\<close> of a pointer gives: its type comes from the pointer's type, and the
  store is read only when the content is asked for.
\<close>

datatype Value = Invalid | Direct gotype data | Indirect gotype addr

fun ValueOf :: "any \<Rightarrow> Value" where
  "ValueOf None = Invalid"
| "ValueOf (Some (t, d)) = Direct t d"

fun TypeOf :: "any \<Rightarrow> gotype option" where
  "TypeOf None = None"
| "TypeOf (Some (t, d)) = Some t"

fun Value_Kind :: "Value \<Rightarrow> kind" where
  "Value_Kind Invalid = KInvalid"
| "Value_Kind (Direct t d) = Type_Kind t"
| "Value_Kind (Indirect t a) = Type_Kind t"

fun Value_Type :: "Value \<Rightarrow> panic + gotype" where
  "Value_Type Invalid = Inl (ValueError ''reflect.Value.Type'' KInvalid)"
| "Value_Type (Direct t d) = Inr t"
| "Value_Type (Indirect t a) = Inr t"

text \<open>The content of a Value, for the method \<open>m\<close> that asks for it.\<close>

fun Value_data :: "heap \<Rightarrow> string \<Rightarrow> Value \<Rightarrow> panic + data" where
  "Value_data s m Invalid = Inl (ValueError m KInvalid)"
| "Value_data s m (Direct t d) = Inr d"
| "Value_data s m (Indirect t a) =
     (case load s a of Some (Var t' d) \<Rightarrow> Inr d | _ \<Rightarrow> Inl (BadAccess a))"

definition Value_IsNil :: "heap \<Rightarrow> Value \<Rightarrow> panic + bool" where
  "Value_IsNil s v =
     (if Value_Kind v \<in> {KChan, KFunc, KInterface, KMap, KPtr, KSlice, KUnsafePointer}
      then and_then (Value_data s ''reflect.Value.IsNil'' v) (\<lambda>d. Inr (data_is_nil d))
      else Inl (ValueError ''reflect.Value.IsNil'' (Value_Kind v)))"

text \<open>
  \<open>Value.Pointer\<close>: the address a channel, function, map, pointer, slice or
  \<open>unsafe.Pointer\<close> holds, from Go 1.23 on also the address of the bytes of a string;
  a panic for every other kind.
\<close>

definition Value_Pointer :: "runtime \<Rightarrow> heap \<Rightarrow> Value \<Rightarrow> panic + addr" where
  "Value_Pointer rt s v =
     (if Value_Kind v \<in> {KPtr, KChan, KMap, KUnsafePointer, KFunc, KSlice}
         \<or> (Value_Kind v = KString \<and> go1_23 rt)
      then and_then (Value_data s ''reflect.Value.Pointer'' v) (\<lambda>d. Inr (data_addr d))
      else Inl (ValueError ''reflect.Value.Pointer'' (Value_Kind v)))"

text \<open>\<open>Value.Elem\<close>: the zero Value for a nil pointer or a nil interface.\<close>

definition Value_Elem :: "heap \<Rightarrow> Value \<Rightarrow> panic + Value" where
  "Value_Elem s v =
     (if Value_Kind v = KPtr then
        and_then (Value_Type v) (\<lambda>t.
        and_then (Value_data s ''reflect.Value.Elem'' v) (\<lambda>d.
          if data_addr d = 0 then Inr Invalid
          else Inr (Indirect (Type_Elem t) (data_addr d))))
      else if Value_Kind v = KInterface then
        and_then (Value_data s ''reflect.Value.Elem'' v) (\<lambda>d.
          case d of DIface (Some (t', d')) \<Rightarrow> Inr (Direct t' d') | _ \<Rightarrow> Inr Invalid)
      else Inl (ValueError ''reflect.Value.Elem'' (Value_Kind v)))"

fun Value_CanAddr :: "Value \<Rightarrow> bool" where
  "Value_CanAddr (Indirect t a) = True"
| "Value_CanAddr v = False"

fun Value_Addr :: "Value \<Rightarrow> panic + Value" where
  "Value_Addr (Indirect t a) = Inr (Direct (PtrTo t) (DRef a))"
| "Value_Addr v = Inl (PanicMsg ''reflect.Value.Addr of unaddressable value'')"

text \<open>
  \<open>Value.Interface\<close>: the value as an \<open>interface{}\<close>; for a Value of interface kind,
  the value inside the interface.
\<close>

definition Value_Interface :: "heap \<Rightarrow> Value \<Rightarrow> panic + any" where
  "Value_Interface s v =
     and_then (Value_Type v) (\<lambda>t.
     and_then (Value_data s ''reflect.Value.Interface'' v) (\<lambda>d.
       if Type_Kind t = KInterface
       then (case d of DIface x \<Rightarrow> Inr x | _ \<Rightarrow> Inr None)
       else Inr (Some (t, d))))"

definition reflect_Zero :: "gotype \<Rightarrow> Value" where
  "reflect_Zero t = Direct t (zero_data t)"

definition reflect_New :: "heap \<Rightarrow> gotype \<Rightarrow> Value \<times> heap" where
  "reflect_New s t =
     (case alloc s (Var t (zero_data t)) of (a, s') \<Rightarrow> (Direct (PtrTo t) (DRef a), s'))"

definition reflect_NewAt :: "gotype \<Rightarrow> addr \<Rightarrow> Value" where
  "reflect_NewAt t p = Direct (PtrTo t) (DRef p)"

text \<open>
  \<open>v.Set(x)\<close>: \<open>v\<close> must be addressable; \<open>x\<close> is assigned as it is when its type
  is directly assignable to the type of \<open>v\<close>, and inside an interface when the type
  of \<open>v\<close> is an interface type that the type of \<open>x\<close> implements.
\<close>

definition Value_Set :: "heap \<Rightarrow> Value \<Rightarrow> Value \<Rightarrow> panic + heap" where
  "Value_Set s v x =
     (case v of
        Indirect t a \<Rightarrow>
          and_then (Value_data s ''reflect.Value.Set'' x) (\<lambda>d.
          and_then (Value_Type x) (\<lambda>tx.
            if directlyAssignable t tx \<or> implements t tx then
              (case load s a of
                 Some (Var t' d') \<Rightarrow>
                   Inr (store s a (Var t'
                     (if directlyAssignable t tx \<or> Type_Kind tx = KInterface then d
                      else DIface (Some (tx, d)))))
               | _ \<Rightarrow> Inl (BadAccess a))
            else Inl (PanicMsg ''reflect.Set: value is not assignable to type'')))
      | _ \<Rightarrow> Inl (PanicMsg ''reflect: reflect.Value.Set using unaddressable value''))"

text \<open>
  \<open>v.Convert(T)\<close>, for a source of pointer kind or a destination of interface kind:
  the only calls in \<open>oop.go\<close> (\<open>As\<close> converts a pointer to a pointer type, \<open>Cast\<close>
  converts after \<open>Type.Implements\<close> has accepted the destination as an interface
  type). There the conversions of \<open>reflect\<close> that compute a new representation
  (between numbers, strings, slices and arrays) and the conversion between channel
  types do not apply, and \<open>convertOp\<close> is: the same underlying type; two pointer
  types without names whose base types have the same underlying type; a destination
  interface that the source implements; and no conversion (a panic) otherwise.
\<close>

datatype cvt = CvtDirect | CvtT2I | CvtI2I

definition convertOp :: "gotype \<Rightarrow> gotype \<Rightarrow> cvt option" where
  "convertOp dst src =
     (if haveIdenticalUnderlyingType dst src then Some CvtDirect
      else if Type_Kind dst = KPtr \<and> Type_Name dst = [] \<and>
              Type_Kind src = KPtr \<and> Type_Name src = [] \<and>
              haveIdenticalUnderlyingType (Type_Elem dst) (Type_Elem src)
      then Some CvtDirect
      else if implements dst src
      then (if Type_Kind src = KInterface then Some CvtI2I else Some CvtT2I)
      else None)"

definition Value_Convert :: "heap \<Rightarrow> Value \<Rightarrow> gotype \<Rightarrow> panic + Value" where
  "Value_Convert s v T =
     and_then (Value_Type v) (\<lambda>t.
     and_then (Value_data s ''reflect.Value.Convert'' v) (\<lambda>d.
       if Type_Kind t \<noteq> KPtr \<and> Type_Kind T \<noteq> KInterface then Inl OutsideModel
       else
         (case convertOp T t of
            None \<Rightarrow> Inl (PanicMsg ''reflect.Value.Convert: value cannot be converted to type'')
          | Some CvtDirect \<Rightarrow> Inr (Direct T d)
          | Some CvtI2I \<Rightarrow> Inr (Direct T d)
          | Some CvtT2I \<Rightarrow> Inr (Direct T (DIface (Some (t, d)))))))"

section \<open>The functions of \<open>oop.go\<close>\<close>

text \<open>
  Every function takes the store and returns a panic, or its result (with the new
  store when it allocates). Arguments of type \<open>reflect.Type\<close> are descriptors, never
  the nil interface.
\<close>

subsection \<open>Nil and zero values\<close>

text \<open>\<open>Nil.Ptr\<close> returns the nil pointer.\<close>

definition Nil_Ptr :: addr where
  "Nil_Ptr = 0"

text \<open>
  \<open>Nil.Of\<close>: for the nil interface a nil \<open>*int\<close> inside an interface; otherwise
  the kind of \<open>reflect.ValueOf(i)\<close> decides.
\<close>

definition Nil_Of :: "heap \<Rightarrow> any \<Rightarrow> panic + any" where
  "Nil_Of s i =
     (if i = None then Inr (Some (PtrT (Basic TInt), DRef 0))
      else
        (let v = ValueOf i in
         if Value_Kind v \<noteq> KInterface then Inl (PanicMsg ''not an interface type'')
         else and_then (Value_Type v) (\<lambda>t. Value_Interface s (reflect_Zero t))))"

text \<open>
  \<open>NullOrZeroInterface\<close> (lines 276 to 293): nil for the nil interface; both
  branches on the kind of the type return \<open>reflect.Zero(t).Interface()\<close>.
\<close>

definition NullOrZeroInterface :: "heap \<Rightarrow> any \<Rightarrow> panic + any" where
  "NullOrZeroInterface s i =
     (case TypeOf i of
        None \<Rightarrow> Inr None
      | Some t \<Rightarrow>
          if Type_Kind t = KInterface then Value_Interface s (reflect_Zero t)
          else Value_Interface s (reflect_Zero t))"

definition NilInterface :: "heap \<Rightarrow> any \<Rightarrow> panic + any" where
  "NilInterface s i = NullOrZeroInterface s i"

text \<open>
  \<open>IsNil\<close> (lines 303 to 320): the comparison with nil, then the switch on the kind
  of \<open>reflect.ValueOf(obj)\<close>.
\<close>

definition IsNil :: "heap \<Rightarrow> any \<Rightarrow> panic + bool" where
  "IsNil s obj =
     (if obj = None then Inr True
      else
        (let v = ValueOf obj in
         if Value_Kind v \<in> {KChan, KFunc, KInterface, KMap, KPtr, KSlice}
         then Value_IsNil s v
         else Inr False))"

subsection \<open>Casts\<close>

text \<open>The last two steps of \<open>Cast\<close>: the check of assignability, and nil.\<close>

definition Cast_assignable :: "heap \<Rightarrow> Value \<Rightarrow> gotype \<Rightarrow> panic + (any \<times> heap)" where
  "Cast_assignable s objValue targetType =
     and_then (Value_Type objValue) (\<lambda>t.
       if Type_AssignableTo t targetType then
         and_then (Value_Convert s objValue targetType) (\<lambda>c.
         and_then (Value_Interface s c) (\<lambda>r. Inr (r, s)))
       else Inr (None, s))"

text \<open>
  \<open>Cast\<close> (lines 209 to 239). The three conditions are evaluated in the order of the
  source, each \<open>&&\<close> from left to right.
\<close>

definition Cast :: "heap \<Rightarrow> any \<Rightarrow> gotype \<Rightarrow> panic + (any \<times> heap)" where
  "Cast s obj targetType =
     (let objValue = ValueOf obj in
      and_then (Value_Type objValue) (\<lambda>t.
      and_then (Type_Implements t targetType) (\<lambda>b1.
      if b1 then and_then (Value_Interface s objValue) (\<lambda>r. Inr (r, s))
      else
        and_then
          (if Value_Kind objValue = KPtr then
             and_then (Value_Elem s objValue) (\<lambda>e.
             and_then (Value_Type e) (\<lambda>et. Type_Implements et targetType))
           else Inr False) (\<lambda>b2.
        if b2 then and_then (Value_Interface s objValue) (\<lambda>r. Inr (r, s))
        else
          and_then
            (if Value_Kind objValue \<noteq> KPtr then Type_Implements (PtrTo t) targetType
             else Inr False) (\<lambda>b3.
          if b3 then
            (case reflect_New s t of (p, s1) \<Rightarrow>
               and_then (Value_Elem s1 p) (\<lambda>newValue.
               and_then (Value_Set s1 newValue objValue) (\<lambda>s2.
                 if Value_CanAddr newValue then
                   and_then (Value_Addr newValue) (\<lambda>q.
                   and_then (Value_Interface s2 q) (\<lambda>r. Inr (r, s2)))
                 else Cast_assignable s2 objValue targetType)))
          else Cast_assignable s objValue targetType)))))"

text \<open>
  \<open>As\<close> (lines 243 to 265): a pointer is replaced by what it points to; when the
  type is assignable to the target, a value that is not addressable is copied into a
  new variable, and the address is converted to the pointer type of the target.
\<close>

definition As :: "heap \<Rightarrow> any \<Rightarrow> gotype \<Rightarrow> panic + (any \<times> heap)" where
  "As s obj targetType =
     and_then
       (if Value_Kind (ValueOf obj) = KPtr then Value_Elem s (ValueOf obj)
        else Inr (ValueOf obj)) (\<lambda>objValue.
     and_then (Value_Type objValue) (\<lambda>t.
       if Type_AssignableTo t targetType then
         and_then
           (if \<not> Value_CanAddr objValue then
              (case reflect_New s t of (p, s1) \<Rightarrow>
                 and_then (Value_Elem s1 p) (\<lambda>newValue.
                 and_then (Value_Set s1 newValue objValue) (\<lambda>s2. Inr (newValue, s2))))
            else Inr (objValue, s)) (\<lambda>(objValue', s').
         and_then (Value_Addr objValue') (\<lambda>q.
         and_then (Value_Convert s' q (PtrTo targetType)) (\<lambda>c.
         and_then (Value_Interface s' c) (\<lambda>r. Inr (r, s')))))
       else Inr (None, s)))"

text \<open>
  The type of \<open>objValue\<close> at the test of assignability in \<open>As\<close> (line 252): the
  type of the value, or the type pointed to when the value is a pointer.
\<close>

definition As_objType :: "gotype \<Rightarrow> gotype" where
  "As_objType t = (if Type_Kind t = KPtr then Type_Elem t else t)"

text \<open>\<open>AsPtr\<close> (lines 269 to 271).\<close>

definition AsPtr :: "runtime \<Rightarrow> heap \<Rightarrow> any \<Rightarrow> panic + addr" where
  "AsPtr rt s obj = Value_Pointer rt s (ValueOf obj)"

subsection \<open>Class instances\<close>

text \<open>
  A \<open>reflect.Type\<close> is an interface that holds a pointer to the descriptor of the
  type; \<open>makeClassInfo\<close> takes the address out of it with \<open>Value.Pointer\<close>.
\<close>

definition rtype :: gotype where
  "rtype = Defined ''rtype'' (StructT []) [] []"

definition Type_as_any :: "runtime \<Rightarrow> gotype \<Rightarrow> any" where
  "Type_as_any rt t = Some (PtrT rtype, DRef (rtype_addr rt t))"

definition makeClassInfo :: "runtime \<Rightarrow> heap \<Rightarrow> gotype \<Rightarrow> panic + (addr \<times> heap)" where
  "makeClassInfo rt s classType =
     and_then (Value_Pointer rt s (ValueOf (Type_as_any rt classType))) (\<lambda>tid.
       case alloc s (TypeInfoObj \<lparr>TypeName = Type_Name classType, TypeID = tid\<rparr>) of
         (ti, s1) \<Rightarrow>
           Inr (alloc s1 (ClassInfoObj
             \<lparr>Vtables = [], TypeInfo = ti, Offset = 0, IsClass = 0, Deinit = 0\<rparr>)))"

text \<open>
  The fields of \<open>Klass\<close> with their offsets where a pointer has 8 bytes and an
  interface value 16, as \<open>reflect.TypeOf(Klass{})\<close> lists them.
\<close>

definition Klass_fields :: "(string \<times> nat) list" where
  "Klass_fields = [(''Header'', 0), (''Allocator'', 8), (''Class'', 24)]"

definition getClassOffset :: "gotype \<Rightarrow> nat" where
  "getClassOffset classType =
     (case map_of Klass_fields ''Class'' of None \<Rightarrow> 0 | Some off \<Rightarrow> off)"

text \<open>
  The loop of \<open>initClass\<close> over the fields of a struct: a field that can be set (the
  struct is addressable and the field is exported) and is zero is set to the zero value
  of its type.
\<close>

definition exported :: "string \<Rightarrow> bool" where
  "exported n = (case n of [] \<Rightarrow> False | c # cs \<Rightarrow> 65 \<le> (of_char c :: nat) \<and> (of_char c :: nat) \<le> 90)"

fun initClass_fields :: "bool \<Rightarrow> (string \<times> gotype) list \<Rightarrow> data list \<Rightarrow> data list" where
  "initClass_fields can ((n, t) # fs) (d # ds) =
     (if can \<and> exported n \<and> data_IsZero d then zero_data t else d) # initClass_fields can fs ds"
| "initClass_fields can fs ds = ds"

definition initClass :: "heap \<Rightarrow> any \<Rightarrow> panic + heap" where
  "initClass s instance =
     and_then
       (if Value_Kind (ValueOf instance) = KPtr then Value_Elem s (ValueOf instance)
        else Inr (ValueOf instance)) (\<lambda>val.
       if Value_Kind val \<noteq> KStruct then Inr s
       else
         (case val of
            Indirect t a \<Rightarrow>
              (case (underlying t, load s a) of
                 (StructT fs, Some (Var t' (DStruct ds))) \<Rightarrow>
                   Inr (store s a (Var t' (DStruct (initClass_fields True fs ds))))
               | _ \<Rightarrow> Inl (BadAccess a))
          | _ \<Rightarrow> Inr s))"

text \<open>
  \<open>New\<close> (lines 85 to 102). A \<open>*Klass\<close> is the address of a \<open>Klass\<close> in the
  store; the descriptor is made first, then the \<open>Klass\<close> is allocated and its field
  \<open>Class\<close> assigned.
\<close>

definition New :: "runtime \<Rightarrow> heap \<Rightarrow> any \<Rightarrow> gotype \<Rightarrow> any \<Rightarrow> panic + (addr \<times> heap)" where
  "New rt s allocator classType init =
     and_then (makeClassInfo rt s classType) (\<lambda>(info, s1).
       case alloc s1 (KlassObj \<lparr>Header = \<lparr>Info = info\<rparr>, Allocator = allocator, Class = None\<rparr>) of
         (klass, s2) \<Rightarrow>
           if init \<noteq> None then
             Inr (klass, store s2 klass
               (KlassObj \<lparr>Header = \<lparr>Info = info\<rparr>, Allocator = allocator, Class = init\<rparr>))
           else
             (case reflect_New s2 classType of (p, s3) \<Rightarrow>
                and_then (Value_Interface s3 p) (\<lambda>c.
                and_then
                  (initClass (store s3 klass
                     (KlassObj \<lparr>Header = \<lparr>Info = info\<rparr>, Allocator = allocator, Class = c\<rparr>)) c)
                  (\<lambda>s4. Inr (klass, s4)))))"

text \<open>
  \<open>From\<close> (lines 106 to 147). After the nil check and the case of the type name \<open>TestStruct\<close>, the
  address of a \<open>Klass\<close> is computed by subtracting the offset of the field \<open>Class\<close>
  in \<open>uintptr\<close> arithmetic (64 bits), and the \<open>Klass\<close> is read from there.
\<close>

definition From :: "runtime \<Rightarrow> heap \<Rightarrow> addr \<Rightarrow> gotype \<Rightarrow> panic + (addr \<times> heap)" where
  "From rt s classPtr classType =
     (if classPtr = 0 then Inr (0, s)
      else if Type_Name classType = ''TestStruct'' then
        and_then (Value_Elem s (reflect_NewAt classType classPtr)) (\<lambda>e.
        and_then (Value_Addr e) (\<lambda>q.
        and_then (Value_Interface s q) (\<lambda>obj.
        and_then (makeClassInfo rt s classType) (\<lambda>(info, s1).
          Inr (alloc s1 (KlassObj \<lparr>Header = \<lparr>Info = info\<rparr>, Allocator = None, Class = obj\<rparr>))))))
      else
        (let classOffset = getClassOffset classType;
             klassPtr = (classPtr + 2 ^ 64 - classOffset) mod 2 ^ 64
         in if klassPtr \<noteq> 0 then
              (case load s klassPtr of
                 Some (KlassObj klass) \<Rightarrow>
                   if Class klass \<noteq> None then
                     Inr (alloc s (KlassObj
                       \<lparr>Header = Header klass, Allocator = Allocator klass, Class = Class klass\<rparr>))
                   else Inr (klassPtr, s)
               | _ \<Rightarrow> Inl (BadAccess klassPtr))
            else Inr (klassPtr, s)))"

text \<open>
  \<open>Klass.Ptr\<close> (lines 151 to 153) and \<open>Klass.Deinit\<close> (lines 157 to 162, an empty
  body), methods of \<open>*Klass\<close>.
\<close>

definition Klass_Ptr :: "runtime \<Rightarrow> heap \<Rightarrow> addr \<Rightarrow> panic + addr" where
  "Klass_Ptr rt s k =
     (if k = 0 then Inl NilDereference
      else
        (case load s k of
           Some (KlassObj klass) \<Rightarrow> Value_Pointer rt s (ValueOf (Class klass))
         | _ \<Rightarrow> Inl (BadAccess k)))"

definition Klass_Deinit :: "heap \<Rightarrow> addr \<Rightarrow> panic + heap" where
  "Klass_Deinit s k = Inr s"

subsection \<open>The types of the tests\<close>

definition TestInterface :: gotype where
  "TestInterface = Defined ''TestInterface'' (InterfaceT [''GetValue() int'']) [] []"

definition TestStruct :: gotype where
  "TestStruct =
     Defined ''TestStruct'' (StructT [(''Value'', Basic TInt)]) [] [''GetValue() int'']"

definition TestStruct2 :: gotype where
  "TestStruct2 =
     Defined ''TestStruct2'' (StructT [(''Value'', Basic TInt)]) [] [''GetValue() int'']"

definition TestAnimal :: gotype where
  "TestAnimal = Defined ''TestAnimal'' (InterfaceT [''Sound() string'']) [] []"

definition TestDog :: gotype where
  "TestDog =
     Defined ''TestDog'' (StructT [(''Name'', Basic TString)]) [] [''Sound() string'']"

definition TestCat :: gotype where
  "TestCat =
     Defined ''TestCat'' (StructT [(''Name'', Basic TString)]) [] [''Sound() string'']"

subsection \<open>Scenarios\<close>

text \<open>The owned value of a handle: \<open>k.Class\<close>.\<close>

definition Class_of :: "heap \<Rightarrow> addr \<Rightarrow> any" where
  "Class_of s k = (case load s k of Some (KlassObj klass) \<Rightarrow> Class klass | _ \<Rightarrow> None)"

text \<open>Calling \<open>Deinit\<close> twice on the same handle.\<close>

definition Deinit_twice :: "heap \<Rightarrow> addr \<Rightarrow> panic + heap" where
  "Deinit_twice s k = and_then (Klass_Deinit s k) (\<lambda>s'. Klass_Deinit s' k)"

text \<open>
  \<open>h = New(nil, T, init)\<close>, then \<open>h.Deinit()\<close> twice: the owned value of \<open>h\<close>
  afterwards.
\<close>

definition New_Deinit_twice :: "runtime \<Rightarrow> heap \<Rightarrow> gotype \<Rightarrow> any \<Rightarrow> panic + any" where
  "New_Deinit_twice rt s T init =
     and_then (New rt s None T init) (\<lambda>(h, s1).
     and_then (Deinit_twice s1 h) (\<lambda>s2. Inr (Class_of s2 h)))"

text \<open>The identity key of a descriptor, read through its pointers: \<open>info.TypeInfo.TypeID\<close>.\<close>

definition TypeID_of :: "heap \<Rightarrow> addr \<Rightarrow> addr option" where
  "TypeID_of s info =
     (case load s info of
        Some (ClassInfoObj c) \<Rightarrow>
          (case load s (TypeInfo c) of Some (TypeInfoObj ti) \<Rightarrow> Some (TypeID ti) | _ \<Rightarrow> None)
      | _ \<Rightarrow> None)"

text \<open>
  \<open>From(h.Ptr(), T)\<close> for the handle \<open>h = New(allocator, T, init)\<close>: the owned value
  of \<open>h\<close> together with the owned value of the handle that \<open>From\<close> returns.
\<close>

definition New_Ptr_From :: "runtime \<Rightarrow> heap \<Rightarrow> gotype \<Rightarrow> any \<Rightarrow> panic + (any \<times> any)" where
  "New_Ptr_From rt s T init =
     and_then (New rt s None T init) (\<lambda>(h, s1).
     and_then (Klass_Ptr rt s1 h) (\<lambda>p.
     and_then (From rt s1 p T) (\<lambda>(h', s2).
       Inr (Class_of s1 h, Class_of s2 h'))))"

text \<open>
  A toolchain of Go 1.23, and a store with one variable of each of the structs of the
  tests: \<open>TestDog{Name: "Rex"}\<close> and \<open>TestStruct{Value: 42}\<close>.
\<close>

definition test_rt :: runtime where
  "test_rt =
     \<lparr>go1_23 = True,
      rtype_addr = (\<lambda>t. if t = TestDog then 4915200 else if t = TestStruct then 4915264 else 4915328)\<rparr>"

definition rex :: data where
  "rex = DStruct [DString 4710400 ''Rex'']"

definition test_store :: heap where
  "test_store = [Var TestDog rex, Var TestStruct (DStruct [DNum 42])]"

definition dog_ptr :: any where
  "dog_ptr = Some (PtrT TestDog, DRef (addr_of 0))"

definition ts_ptr :: any where
  "ts_ptr = Some (PtrT TestStruct, DRef (addr_of 1))"

section \<open>Properties\<close>

subsection \<open>The store and zero values\<close>

lemma allocated_addr_of [simp]: "allocated s (addr_of i) = (i < length s)"
  by (simp add: allocated_def addr_of_def slot_def)

lemma addr_of_inject [simp]: "(addr_of i = addr_of j) = (i = j)"
  by (simp add: addr_of_def slot_def)

lemma addr_of_nonzero [simp]: "addr_of i \<noteq> 0"
  by (simp add: addr_of_def heap_base_def)

lemma allocated_is_addr_of: "allocated s a \<Longrightarrow> \<exists>i < length s. a = addr_of i"
  unfolding allocated_def addr_of_def
  by (rule exI [of _ "(a - heap_base) div slot"]) (auto simp: slot_def)

lemma load_addr_of [simp]: "load s (addr_of i) = (if i < length s then Some (s ! i) else None)"
  by (simp add: load_def) (simp add: addr_of_def slot_def)

lemma store_addr_of [simp]: "store s (addr_of i) x = (if i < length s then s[i := x] else s)"
  by (simp add: store_def) (simp add: addr_of_def slot_def)

lemma load_Some_allocated: "load s a = Some x \<Longrightarrow> allocated s a"
  by (simp add: load_def split: if_splits)

lemma load_append_old: "allocated s a \<Longrightarrow> load (s @ xs) a = load s a"
  by (auto simp: load_def allocated_def nth_append)

lemma zero_data_nil:
  "Type_Kind t \<in> {KChan, KFunc, KInterface, KMap, KPtr, KSlice} \<Longrightarrow> data_is_nil (zero_data t)"
  by (induction t) (auto split: basic.splits elim: basic_kind.elims)

lemma zero_data_interface: "Type_Kind t = KInterface \<Longrightarrow> zero_data t = DIface None"
  by (induction t) (auto elim: basic_kind.elims)

lemma basic_zero_IsZero: "data_IsZero (basic_zero b)"
  by (cases b) simp_all

lemma zero_data_IsZero: "data_IsZero (zero_data t)"
  by (induction t) (auto simp: list_all_iff basic_zero_IsZero)

lemma makeClassInfo_result:
  "makeClassInfo rt s T =
     Inr (addr_of (Suc (length s)),
          s @ [TypeInfoObj \<lparr>TypeName = Type_Name T, TypeID = rtype_addr rt T\<rparr>,
               ClassInfoObj \<lparr>Vtables = [], TypeInfo = addr_of (length s), Offset = 0,
                             IsClass = 0, Deinit = 0\<rparr>])"
  by (simp add: makeClassInfo_def Value_Pointer_def Type_as_any_def and_then_def alloc_def)

lemma New_init:
  "init \<noteq> None \<Longrightarrow>
   New rt s allocator T init =
     Inr (addr_of (Suc (Suc (length s))),
          s @ [TypeInfoObj \<lparr>TypeName = Type_Name T, TypeID = rtype_addr rt T\<rparr>,
               ClassInfoObj \<lparr>Vtables = [], TypeInfo = addr_of (length s), Offset = 0,
                             IsClass = 0, Deinit = 0\<rparr>,
               KlassObj \<lparr>Header = \<lparr>Info = addr_of (Suc (length s))\<rparr>,
                         Allocator = allocator, Class = init\<rparr>])"
  by (simp add: New_def makeClassInfo_result and_then_def alloc_def)

subsection \<open>Types, conversions and the casts\<close>

lemma underlying_not_Defined [simp]: "underlying T \<noteq> Defined n u ms pms"
  by (induction T) auto

lemma Type_Kind_underlying [simp]: "Type_Kind (underlying T) = Type_Kind T"
  by (induction T) auto

lemma underlying_interface: "underlying T = InterfaceT ims \<Longrightarrow> Type_Kind T = KInterface"
  using Type_Kind_underlying [of T] by simp

lemma implements_concrete: "Type_Kind T \<noteq> KInterface \<Longrightarrow> implements T V = False"
  using underlying_interface [of T] by (auto simp: implements_def split: gotype.splits)

lemma implements_PtrT [simp]: "implements (PtrT T) V = False"
  by (simp add: implements_def)

lemma convertOp_pointers:
  "convertOp (PtrT T) (PtrT V) = (if haveIdenticalUnderlyingType T V then Some CvtDirect else None)"
  by (auto simp: convertOp_def haveIdenticalUnderlyingType_def)

lemma Value_Convert_pointer:
  "Value_Convert s (Direct (PtrT V) d) (PtrT T) =
     (if haveIdenticalUnderlyingType T V then Inr (Direct (PtrT T) d)
      else Inl (PanicMsg ''reflect.Value.Convert: value cannot be converted to type''))"
  by (simp add: Value_Convert_def and_then_def convertOp_pointers)

lemma Type_AssignableTo_concrete:
  "Type_Kind T \<noteq> KInterface \<Longrightarrow> Type_AssignableTo V T = directlyAssignable T V"
  by (simp add: Type_AssignableTo_def implements_concrete)

lemma reflect_New_Set:
  "Value_Set (s @ [Var t (zero_data t)]) (Indirect t (addr_of (length s))) (Direct t d) =
     Inr (s @ [Var t d])"
  by (simp add: Value_Set_def and_then_def directlyAssignable_def)

lemma As_value:
  "Type_Kind T \<noteq> KInterface \<Longrightarrow> Type_Kind t \<noteq> KPtr \<Longrightarrow>
   As s (Some (t, d)) T =
     (if \<not> directlyAssignable T t then Inr (None, s)
      else if \<not> haveIdenticalUnderlyingType T t
      then Inl (PanicMsg ''reflect.Value.Convert: value cannot be converted to type'')
      else Inr (Some (PtrT T, DRef (addr_of (length s))), s @ [Var t d]))"
  by (simp add: As_def and_then_def Type_AssignableTo_concrete reflect_New_def alloc_def
        Value_Elem_def PtrTo_def reflect_New_Set Value_Convert_pointer Value_Interface_def)

lemma As_pointer:
  "Type_Kind T \<noteq> KInterface \<Longrightarrow> Type_Kind t = KPtr \<Longrightarrow> data_addr d \<noteq> 0 \<Longrightarrow>
   As s (Some (t, d)) T =
     (if \<not> directlyAssignable T (Type_Elem t) then Inr (None, s)
      else if \<not> haveIdenticalUnderlyingType T (Type_Elem t)
      then Inl (PanicMsg ''reflect.Value.Convert: value cannot be converted to type'')
      else Inr (Some (PtrT T, DRef (data_addr d)), s))"
  by (simp add: As_def and_then_def Type_AssignableTo_concrete
        Value_Elem_def PtrTo_def Value_Convert_pointer Value_Interface_def)

lemma As_nil_pointer:
  "Type_Kind t = KPtr \<Longrightarrow> data_addr d = 0 \<Longrightarrow>
   As s (Some (t, d)) T = Inl (ValueError ''reflect.Value.Type'' KInvalid)"
  by (simp add: As_def and_then_def Value_Elem_def)

lemma underlying_chan:
  "Type_Kind T = KChan \<Longrightarrow> underlying T = ChanT (Type_ChanDir T) (Type_Elem T)"
  by (induction T) (auto elim: basic_kind.elims)

lemma not_identical_is_channel:
  assumes "directlyAssignable T V"
  shows "(\<not> haveIdenticalUnderlyingType T V) =
         (Type_Kind V = KChan \<and> Type_ChanDir V \<noteq> Type_ChanDir T)"
proof (cases "haveIdenticalUnderlyingType T V")
  case True
  then have "Type_Kind V = KChan \<Longrightarrow> Type_ChanDir V = Type_ChanDir T"
    using underlying_chan [of T] underlying_chan [of V]
    by (auto simp: haveIdenticalUnderlyingType_def split: if_splits)
  with True show ?thesis by blast
next
  case False
  with assms have ne: "T \<noteq> V" and k: "Type_Kind T = Type_Kind V"
    and ch: "Type_Kind T = KChan" and sp: "specialChannelAssignability T V"
    by (auto simp: directlyAssignable_def haveIdenticalUnderlyingType_def split: if_splits)
  from sp have both: "Type_ChanDir V = BothDir" and el: "Type_Elem T = Type_Elem V"
    by (simp_all add: specialChannelAssignability_def)
  have "Type_ChanDir T \<noteq> Type_ChanDir V"
  proof
    assume "Type_ChanDir T = Type_ChanDir V"
    with el ch k have "underlying T = underlying V"
      using underlying_chan [of T] underlying_chan [of V] by simp
    with k ch have "haveIdenticalUnderlyingType T V"
      by (simp add: haveIdenticalUnderlyingType_def)
    with False show False by simp
  qed
  with False k ch show ?thesis by auto
qed

lemma Cast_assignable_store:
  "Cast_assignable s v T = Inr (r, s') \<Longrightarrow> s' = s"
  by (auto simp: Cast_assignable_def and_then_def split: sum.splits if_splits)

lemma Cast_value_copy:
  "Type_Kind T = KInterface \<Longrightarrow> \<not> implements T t \<Longrightarrow> Type_Kind t \<noteq> KPtr \<Longrightarrow>
   implements T (PtrTo t) \<Longrightarrow>
   Cast s (Some (t, d)) T = Inr (Some (PtrTo t, DRef (addr_of (length s))), s @ [Var t d])"
  by (simp add: Cast_def and_then_def Type_Implements_def reflect_New_def alloc_def
        Value_Elem_def PtrTo_def reflect_New_Set Value_Interface_def)

lemma Cast_store:
  "Cast s obj T = Inr (r, s') \<Longrightarrow> s' = s \<or> (\<exists>t d. obj = Some (t, d) \<and> s' = s @ [Var t d])"
proof (cases obj)
  case None
  assume "Cast s obj T = Inr (r, s')"
  with None show ?thesis by (simp add: Cast_def and_then_def)
next
  case (Some td)
  obtain t d where td: "td = (t, d)" by (cases td)
  assume c: "Cast s obj T = Inr (r, s')"
  show ?thesis
  proof (cases "Type_Kind T = KInterface \<and> \<not> implements T t \<and> Type_Kind t \<noteq> KPtr \<and> implements T (PtrTo t)")
    case True
    with c Some td show ?thesis by (simp add: Cast_value_copy)
  next
    case False
    with c Some td have "s' = s"
      by (auto simp: Cast_def and_then_def Type_Implements_def Let_def
            dest: Cast_assignable_store split: sum.splits if_splits)
    then show ?thesis by simp
  qed
qed

lemma load_store_new_old:
  "allocated s b \<Longrightarrow> load (store (s @ [v]) (addr_of (length s)) x) b = load s b"
  by (auto simp: nth_append dest!: allocated_is_addr_of)

lemma load_store_old_new:
  "allocated s b \<Longrightarrow> load (store (s @ [v]) b x) (addr_of (length s)) = Some v"
  by (auto simp: nth_append dest!: allocated_is_addr_of)

text \<open>
  What \<open>Cast\<close> returns for an interface type as target: the steps after the third
  rule never find the type assignable. Neither cast reaches a conversion outside the
  model.
\<close>

lemma kind_interface_underlying:
  "Type_Kind T = KInterface \<Longrightarrow> \<exists>ims. underlying T = InterfaceT ims"
  by (induction T) (auto elim: basic_kind.elims)

lemma Type_methods_interface: "underlying T = InterfaceT ims \<Longrightarrow> Type_methods T = ims"
  by (cases T) (auto split: gotype.splits)

lemma directlyAssignable_interface:
  assumes k: "Type_Kind T = KInterface" and da: "directlyAssignable T t"
  shows "implements T t"
proof -
  from k obtain ims where u: "underlying T = InterfaceT ims"
    using kind_interface_underlying by blast
  then have m: "Type_methods T = ims" by (rule Type_methods_interface)
  show ?thesis
  proof (cases "T = t")
    case True
    with u m show ?thesis by (simp add: implements_def list_all_iff)
  next
    case False
    with da k have "Type_methods T = []"
      by (auto simp: directlyAssignable_def haveIdenticalUnderlyingType_def split: if_splits)
    with m u show ?thesis by (simp add: implements_def)
  qed
qed

lemma Cast_assignable_none:
  "Type_Kind T = KInterface \<Longrightarrow> \<not> implements T t \<Longrightarrow>
   Cast_assignable s (Direct t d) T = Inr (None, s)"
  using directlyAssignable_interface [of T t]
  by (auto simp: Cast_assignable_def and_then_def Type_AssignableTo_def)

lemma Cast_interface:
  "Type_Kind T = KInterface \<Longrightarrow>
   Cast s (Some (t, d)) T =
     (if implements T t then
        Inr (if Type_Kind t = KInterface then (case d of DIface x \<Rightarrow> x | _ \<Rightarrow> None)
             else Some (t, d), s)
      else if Type_Kind t = KPtr then
        (if data_addr d = 0 then Inl (ValueError ''reflect.Value.Type'' KInvalid)
         else if implements T (Type_Elem t) then Inr (Some (t, d), s)
         else Inr (None, s))
      else if implements T (PtrTo t) then
        Inr (Some (PtrTo t, DRef (addr_of (length s))), s @ [Var t d])
      else Inr (None, s))"
  by (auto simp: Cast_def and_then_def Type_Implements_def Value_Interface_def Value_Elem_def
        Cast_assignable_none Cast_value_copy reflect_New_def alloc_def reflect_New_Set PtrTo_def
        split: data.splits)

lemma Cast_not_interface:
  "Type_Kind T \<noteq> KInterface \<Longrightarrow>
   Cast s (Some (t, d)) T =
     Inl (PanicMsg ''reflect: non-interface type passed to Type.Implements'')"
  by (simp add: Cast_def and_then_def Type_Implements_def)

lemma Cast_covered: "Cast s obj T \<noteq> Inl OutsideModel"
proof (cases obj)
  case None
  then show ?thesis by (simp add: Cast_def and_then_def)
next
  case (Some td)
  obtain t d where "td = (t, d)" by (cases td)
  with Some show ?thesis
    by (cases "Type_Kind T = KInterface") (simp_all add: Cast_interface Cast_not_interface)
qed

lemma As_covered: "As s obj T \<noteq> Inl OutsideModel"
proof (cases obj)
  case None
  then show ?thesis by (simp add: As_def and_then_def)
next
  case (Some td)
  obtain t d where "td = (t, d)" by (cases td)
  with Some show ?thesis
    by (auto simp: As_def and_then_def Value_Interface_def Value_Elem_def
          reflect_New_def alloc_def reflect_New_Set PtrTo_def Value_Convert_pointer
          split: sum.splits if_splits)
qed

lemmas test_defs =
  test_rt_def test_store_def rex_def dog_ptr_def ts_ptr_def
  TestInterface_def TestStruct_def TestStruct2_def TestAnimal_def TestDog_def TestCat_def

subsection \<open>Nil checks and zero values\<close>

text \<open>
  C4. \<open>IsNil\<close> never panics. It is true for the nil interface; for any other value
  it is true exactly when the kind of the value is one of Chan, Func, Interface, Map,
  Ptr and Slice and the reference is nil; so it is false for every value of another
  kind. For the zero value of a type it is true exactly for those six kinds: the zero
  value of a struct, with all fields zero, is not nil.
\<close>

theorem IsNil_characterisation:
  "IsNil s None = Inr True \<and>
   IsNil s (Some (t, d)) =
     Inr (Type_Kind t \<in> {KChan, KFunc, KInterface, KMap, KPtr, KSlice} \<and> data_is_nil d) \<and>
   IsNil s (Some (t, zero_data t)) =
     Inr (Type_Kind t \<in> {KChan, KFunc, KInterface, KMap, KPtr, KSlice})"
proof -
  have a: "IsNil s None = Inr True" by (simp add: IsNil_def)
  have b: "IsNil s (Some (t, d')) =
     Inr (Type_Kind t \<in> {KChan, KFunc, KInterface, KMap, KPtr, KSlice} \<and> data_is_nil d')" for d'
    by (simp add: IsNil_def Value_IsNil_def and_then_def)
  have c: "IsNil s (Some (t, zero_data t)) =
     Inr (Type_Kind t \<in> {KChan, KFunc, KInterface, KMap, KPtr, KSlice})"
    unfolding b using zero_data_nil [of t] by blast
  from a b c show ?thesis by blast
qed

text \<open>
  At the types of the tests: a nil \<open>*TestStruct\<close> is nil, the pointer to the
  \<open>TestStruct\<close> of the store is not, and the zero \<open>TestStruct\<close> is not.
\<close>

theorem IsNil_characterisation_witness:
  "IsNil test_store (Some (PtrT TestStruct, DRef 0)) = Inr True \<and>
   IsNil test_store ts_ptr = Inr False \<and>
   IsNil test_store (Some (TestStruct, zero_data TestStruct)) = Inr False"
  using IsNil_characterisation [of test_store "PtrT TestStruct" "DRef 0"]
    IsNil_characterisation [of test_store "PtrT TestStruct" "DRef (addr_of 1)"]
    IsNil_characterisation [of test_store TestStruct "DNum 0"]
  by (simp add: test_defs)

text \<open>
  C7. \<open>NullOrZeroInterface\<close> never panics. For the nil interface it returns the nil
  interface; for a value of dynamic type \<open>t\<close> it returns the nil interface when
  \<open>t\<close> is of interface kind, and otherwise the zero value of \<open>t\<close>, all of whose
  components are zero.
\<close>

theorem NullOrZeroInterface_zero:
  "NullOrZeroInterface s None = Inr None \<and>
   NullOrZeroInterface s (Some (t, d)) =
     Inr (if Type_Kind t = KInterface then None else Some (t, zero_data t)) \<and>
   data_IsZero (zero_data t)"
  by (simp add: NullOrZeroInterface_def Value_Interface_def reflect_Zero_def and_then_def
        zero_data_interface zero_data_IsZero)

theorem NullOrZeroInterface_zero_witness:
  "NullOrZeroInterface test_store (Some (TestStruct, DStruct [DNum 42])) =
     Inr (Some (TestStruct, DStruct [DNum 0]))"
  using NullOrZeroInterface_zero [of test_store TestStruct "DStruct [DNum 42]"]
  by (simp add: test_defs)

subsection \<open>Casts of the nil interface\<close>

text \<open>
  C10. For every target type, \<open>Cast\<close> and \<open>As\<close> of the nil interface panic in
  \<open>reflect.Value.Type\<close>, called on the zero Value; they do not return nil.
\<close>

theorem Cast_As_nil_panic:
  "Cast s None T = Inl (ValueError ''reflect.Value.Type'' KInvalid) \<and>
   As s None T = Inl (ValueError ''reflect.Value.Type'' KInvalid)"
  by (simp add: Cast_def As_def and_then_def)

theorem Cast_As_nil_panic_witness:
  "Cast test_store None TestAnimal = Inl (ValueError ''reflect.Value.Type'' KInvalid) \<and>
   As test_store None TestDog = Inl (ValueError ''reflect.Value.Type'' KInvalid)"
  using Cast_As_nil_panic [of test_store TestAnimal] Cast_As_nil_panic [of test_store TestDog]
  by simp

subsection \<open>\<open>Cast\<close> and \<open>As\<close>\<close>

text \<open>
  C3. \<open>Cast\<close> never changes a variable of the store: when it returns, every variable
  allocated before the call holds what it held. When the target is an interface type
  that the type \<open>t\<close> of a value does not implement, \<open>t\<close> is not a pointer type and
  \<open>*t\<close> implements the target (the third rule of \<open>Cast\<close>), the result is a pointer
  to a new variable, at an address that was not allocated before the call, which holds
  a copy of the value; assigning to the new variable changes no earlier variable, and
  assigning to an earlier variable does not change the new one.
\<close>

theorem Cast_never_mutates:
  "(Cast s obj T = Inr (r, s') \<longrightarrow> (\<forall>a. allocated s a \<longrightarrow> load s' a = load s a)) \<and>
   (Type_Kind T = KInterface \<and> \<not> implements T t \<and> Type_Kind t \<noteq> KPtr \<and>
    implements T (PtrTo t) \<longrightarrow>
      Cast s (Some (t, d)) T =
        Inr (Some (PtrTo t, DRef (addr_of (length s))), s @ [Var t d]) \<and>
      \<not> allocated s (addr_of (length s)) \<and>
      load (s @ [Var t d]) (addr_of (length s)) = Some (Var t d) \<and>
      (\<forall>b x. allocated s b \<longrightarrow>
         load (store (s @ [Var t d]) (addr_of (length s)) x) b = load s b \<and>
         load (store (s @ [Var t d]) b x) (addr_of (length s)) = Some (Var t d)))"
proof -
  have frame: "Cast s obj T = Inr (r, s') \<longrightarrow> (\<forall>a. allocated s a \<longrightarrow> load s' a = load s a)"
    using Cast_store [of s obj T r s'] by (auto simp: load_append_old)
  have copy: "Type_Kind T = KInterface \<and> \<not> implements T t \<and> Type_Kind t \<noteq> KPtr \<and>
    implements T (PtrTo t) \<longrightarrow>
      Cast s (Some (t, d)) T =
        Inr (Some (PtrTo t, DRef (addr_of (length s))), s @ [Var t d])"
    by (simp add: Cast_value_copy)
  have fresh: "\<not> allocated s (addr_of (length s))" by simp
  have holds: "load (s @ [Var t d]) (addr_of (length s)) = Some (Var t d)" by simp
  have indep: "\<forall>b x. allocated s b \<longrightarrow>
         load (store (s @ [Var t d]) (addr_of (length s)) x) b = load s b \<and>
         load (store (s @ [Var t d]) b x) (addr_of (length s)) = Some (Var t d)"
    by (intro allI impI conjI load_store_new_old load_store_old_new)
  from frame copy fresh holds indep show ?thesis by blast
qed

text \<open>
  The test \<open>TestCast\<close>: the value \<open>TestStruct{Value: 84}\<close> cast to
  \<open>TestInterface\<close> gives a pointer to a third variable; the \<open>TestStruct\<close> of the
  store keeps its value, also after an assignment to the copy.
\<close>

theorem Cast_never_mutates_witness:
  "Cast test_store (Some (TestStruct, DStruct [DNum 84])) TestInterface =
     Inr (Some (PtrT TestStruct, DRef (addr_of 2)),
          test_store @ [Var TestStruct (DStruct [DNum 84])]) \<and>
   load (test_store @ [Var TestStruct (DStruct [DNum 84])]) (addr_of 1) = load test_store (addr_of 1) \<and>
   load (store (test_store @ [Var TestStruct (DStruct [DNum 84])]) (addr_of 2) (Var TestStruct (DStruct [DNum 7])))
        (addr_of 1) = Some (Var TestStruct (DStruct [DNum 42]))"
  using Cast_never_mutates [of test_store "Some (TestStruct, DStruct [DNum 84])" TestInterface
      "Some (PtrT TestStruct, DRef (addr_of 2))" "test_store @ [Var TestStruct (DStruct [DNum 84])]"
      TestStruct "DStruct [DNum 84]"]
  by (simp add: implements_def PtrTo_def TestStruct_def TestInterface_def test_store_def
        numeral_2_eq_2)

text \<open>
  C8, as the code has it. Take a target type that is not an interface type and a value
  that is neither the nil interface nor a nil pointer, and let \<open>V\<close> be the type of
  the value, or the type pointed to when the value is a pointer. When \<open>V\<close> is not
  assignable to the target, \<open>As\<close> returns nil and leaves the store alone. When it
  is, \<open>As\<close> returns a pointer of type pointer-to-target: the pointer itself for a
  pointer, and otherwise a pointer to a new variable that holds a copy of the value.
  Nothing is said of a \<open>V\<close> of channel kind that is assignable to a target of
  another direction.
\<close>

theorem As_concrete:
  "Type_Kind T \<noteq> KInterface \<Longrightarrow> \<not> (Type_Kind t = KPtr \<and> data_addr d = 0) \<Longrightarrow>
   \<not> (Type_AssignableTo (As_objType t) T \<and> Type_Kind (As_objType t) = KChan \<and>
      Type_ChanDir (As_objType t) \<noteq> Type_ChanDir T) \<Longrightarrow>
   As s (Some (t, d)) T =
     (if \<not> Type_AssignableTo (As_objType t) T then Inr (None, s)
      else if Type_Kind t = KPtr then Inr (Some (PtrTo T, DRef (data_addr d)), s)
      else Inr (Some (PtrTo T, DRef (addr_of (length s))), s @ [Var t d]))"
proof (cases "Type_Kind t = KPtr")
  case True
  assume T: "Type_Kind T \<noteq> KInterface" and nn: "\<not> (Type_Kind t = KPtr \<and> data_addr d = 0)"
    and ch: "\<not> (Type_AssignableTo (As_objType t) T \<and> Type_Kind (As_objType t) = KChan \<and>
      Type_ChanDir (As_objType t) \<noteq> Type_ChanDir T)"
  from True nn have a: "data_addr d \<noteq> 0" by simp
  show ?thesis
    using not_identical_is_channel [of T "Type_Elem t"] ch
    by (auto simp: As_pointer [OF T True a] True Type_AssignableTo_concrete [OF T] PtrTo_def
          As_objType_def)
next
  case False
  assume T: "Type_Kind T \<noteq> KInterface"
    and ch: "\<not> (Type_AssignableTo (As_objType t) T \<and> Type_Kind (As_objType t) = KChan \<and>
      Type_ChanDir (As_objType t) \<noteq> Type_ChanDir T)"
  show ?thesis
    using not_identical_is_channel [of T t] ch
    by (auto simp: As_value [OF T False] False Type_AssignableTo_concrete [OF T] PtrTo_def
          As_objType_def)
qed

text \<open>
  A \<open>TestDog\<close> value cast to \<open>TestCat\<close> gives nil; cast to \<open>TestDog\<close> it gives
  a pointer to a new variable that holds the same \<open>TestDog\<close>; a pointer to the
  \<open>TestDog\<close> of the store is returned as it is.
\<close>

theorem As_concrete_witness:
  "As test_store (Some (TestDog, rex)) TestCat = Inr (None, test_store) \<and>
   As test_store (Some (TestDog, rex)) TestDog =
     Inr (Some (PtrT TestDog, DRef (addr_of 2)), test_store @ [Var TestDog rex]) \<and>
   As test_store dog_ptr TestDog = Inr (dog_ptr, test_store)"
  using As_concrete [of TestCat TestDog rex test_store]
    As_concrete [of TestDog TestDog rex test_store]
    As_concrete [of TestDog "PtrT TestDog" "DRef (addr_of 0)" test_store]
  by (simp add: Type_AssignableTo_def directlyAssignable_def implements_def PtrTo_def
        As_objType_def TestDog_def TestCat_def dog_ptr_def test_store_def numeral_2_eq_2)

text \<open>
  C8, as stated, fails: for a nil \<open>*TestDog\<close> the type pointed to is assignable to
  \<open>TestDog\<close>, yet \<open>As\<close> panics; and for a channel of type \<open>chan int\<close>, which is
  assignable to the receive-only channel type of \<open>int\<close>, \<open>As\<close> panics in
  \<open>Convert\<close>.
\<close>

theorem As_counterexample:
  "As test_store (Some (PtrT TestDog, DRef 0)) TestDog =
     Inl (ValueError ''reflect.Value.Type'' KInvalid) \<and>
   Type_AssignableTo (ChanT BothDir (Basic TInt)) (ChanT RecvDir (Basic TInt)) \<and>
   As test_store (Some (ChanT BothDir (Basic TInt), DRef 4718592)) (ChanT RecvDir (Basic TInt)) =
     Inl (PanicMsg ''reflect.Value.Convert: value cannot be converted to type'')"
  by (simp add: As_nil_pointer As_value Type_AssignableTo_def directlyAssignable_def
        specialChannelAssignability_def haveIdenticalUnderlyingType_def)

subsection \<open>Handles\<close>

text \<open>
  C2, as the code has it. \<open>Deinit\<close> does nothing: a call returns normally and leaves
  the store as it was, and so does a second call on the same handle.
\<close>

theorem Deinit_no_fault:
  "Klass_Deinit s k = Inr s \<and> Deinit_twice s k = Inr s"
  by (simp add: Klass_Deinit_def Deinit_twice_def and_then_def)

theorem Deinit_no_fault_witness:
  "Deinit_twice test_store (addr_of 0) = Inr test_store"
  using Deinit_no_fault [of test_store "addr_of 0"] by simp

text \<open>
  C2, as stated, fails: on the handle that \<open>New\<close> makes for the \<open>TestDog\<close> of the
  store, the second \<open>Deinit\<close> returns normally, no panic is raised, and the handle
  still owns its value.
\<close>

theorem Deinit_twice_counterexample:
  "New_Deinit_twice test_rt test_store TestDog dog_ptr = Inr dog_ptr"
  by (simp add: New_Deinit_twice_def New_init and_then_def Deinit_twice_def Klass_Deinit_def
        Class_of_def dog_ptr_def test_store_def)

text \<open>
  C5. Two calls of \<open>makeClassInfo\<close> for the same type, in any two stores, both
  return, and the descriptors they make carry the same identity key: the address of the
  descriptor of the type.
\<close>

theorem makeClassInfo_TypeID:
  "\<exists>info1 s1 info2 s2.
     makeClassInfo rt s T = Inr (info1, s1) \<and> makeClassInfo rt s' T = Inr (info2, s2) \<and>
     TypeID_of s1 info1 = Some (rtype_addr rt T) \<and>
     TypeID_of s2 info2 = Some (rtype_addr rt T)"
  by (simp add: makeClassInfo_result TypeID_of_def nth_append)

theorem makeClassInfo_TypeID_witness:
  "\<exists>info1 s1 info2 s2.
     makeClassInfo test_rt test_store TestDog = Inr (info1, s1) \<and>
     makeClassInfo test_rt s1 TestDog = Inr (info2, s2) \<and>
     TypeID_of s1 info1 = Some 4915200 \<and> TypeID_of s2 info2 = Some 4915200"
proof -
  obtain info1 s1 info2 s2 where
    "makeClassInfo test_rt test_store TestDog = Inr (info1, s1)"
    "makeClassInfo test_rt
       (test_store @ [TypeInfoObj \<lparr>TypeName = Type_Name TestDog, TypeID = rtype_addr test_rt TestDog\<rparr>,
               ClassInfoObj \<lparr>Vtables = [], TypeInfo = addr_of (length test_store), Offset = 0,
                             IsClass = 0, Deinit = 0\<rparr>]) TestDog = Inr (info2, s2)"
    "TypeID_of s1 info1 = Some (rtype_addr test_rt TestDog)"
    "TypeID_of s2 info2 = Some (rtype_addr test_rt TestDog)"
    using makeClassInfo_TypeID [of test_rt test_store TestDog
       "test_store @ [TypeInfoObj \<lparr>TypeName = Type_Name TestDog, TypeID = rtype_addr test_rt TestDog\<rparr>,
               ClassInfoObj \<lparr>Vtables = [], TypeInfo = addr_of (length test_store), Offset = 0,
                             IsClass = 0, Deinit = 0\<rparr>]"]
    by blast
  then show ?thesis
    by (auto simp: makeClassInfo_result test_rt_def)
qed

subsection \<open>Addresses\<close>

text \<open>
  C9, as the code has it. \<open>AsPtr\<close> is \<open>reflect.Value.Pointer\<close>: it panics for the
  nil interface and for every value whose kind is not Chan, Func, Map, Ptr, Slice,
  UnsafePointer or, from Go 1.23 on, String; for a value of one of these kinds it
  returns the address the value holds, for a string the address of its bytes.
\<close>

theorem AsPtr_characterisation:
  "AsPtr rt s None = Inl (ValueError ''reflect.Value.Pointer'' KInvalid) \<and>
   AsPtr rt s (Some (t, d)) =
     (if Type_Kind t \<in> {KPtr, KChan, KMap, KUnsafePointer, KFunc, KSlice}
         \<or> (Type_Kind t = KString \<and> go1_23 rt)
      then Inr (data_addr d)
      else Inl (ValueError ''reflect.Value.Pointer'' (Type_Kind t)))"
  by (simp add: AsPtr_def Value_Pointer_def and_then_def)

theorem AsPtr_characterisation_witness:
  "AsPtr test_rt test_store ts_ptr = Inr (addr_of 1) \<and>
   AsPtr test_rt test_store (Some (TestStruct, DStruct [DNum 42])) =
     Inl (ValueError ''reflect.Value.Pointer'' KStruct)"
  using AsPtr_characterisation [of test_rt test_store "PtrT TestStruct" "DRef (addr_of 1)"]
    AsPtr_characterisation [of test_rt test_store TestStruct "DStruct [DNum 42]"]
  by (simp add: test_defs)

text \<open>
  C9, as stated, fails on Go 1.23 and later: a string is not a reference, yet \<open>AsPtr\<close>
  of the string \<open>"Rex"\<close> returns the address of its bytes.
\<close>

theorem AsPtr_string_counterexample:
  "AsPtr test_rt test_store (Some (Basic TString, DString 4710400 ''Rex'')) = Inr 4710400"
  by (simp add: AsPtr_def Value_Pointer_def and_then_def test_rt_def)

text \<open>
  C1 at a handle of \<open>TestDog\<close>. \<open>New\<close> makes the handle for the \<open>TestDog\<close> of the
  store, \<open>Ptr\<close> returns the address of the \<open>TestDog\<close>, and \<open>From\<close>, for a type
  whose name is not \<open>TestStruct\<close>, reads a \<open>Klass\<close> 24 bytes below that address,
  where no \<open>Klass\<close> is: it does not return a handle to the value. For the
  \<open>TestStruct\<close> of the store the same calls return a handle that owns the pointer the
  first handle owns.
\<close>

theorem From_Ptr_TestDog:
  "New_Ptr_From test_rt test_store TestDog dog_ptr = Inl (BadAccess (addr_of 0 - 24)) \<and>
   New_Ptr_From test_rt test_store TestStruct ts_ptr = Inr (ts_ptr, ts_ptr)"
proof -
  have dog: "New_Ptr_From test_rt test_store TestDog dog_ptr = Inl (BadAccess (addr_of 0 - 24))"
    by (simp add: New_Ptr_From_def New_init From_def Klass_Ptr_def
          and_then_def Value_Pointer_def getClassOffset_def Klass_fields_def
          dog_ptr_def test_store_def TestDog_def Let_def)
       (simp add: load_def allocated_def addr_of_def heap_base_def slot_def)
  have ts: "New_Ptr_From test_rt test_store TestStruct ts_ptr = Inr (ts_ptr, ts_ptr)"
    by (simp add: New_Ptr_From_def New_init From_def Klass_Ptr_def makeClassInfo_result
          and_then_def alloc_def Value_Pointer_def Value_Elem_def Value_Interface_def
          reflect_NewAt_def PtrTo_def Class_of_def ts_ptr_def test_store_def TestStruct_def)
  from dog ts show ?thesis by simp
qed

subsection \<open>\<open>Nil.Of\<close>\<close>

text \<open>
  C6 at a non-nil value of interface type. An argument of static type
  \<open>TestInterface\<close> that holds a \<open>*TestStruct\<close> reaches \<open>Nil.Of\<close> as that pointer
  (the parameter has type \<open>interface{}\<close>), \<open>reflect.ValueOf\<close> gives a Value of kind
  Ptr, and \<open>Of\<close> panics. For the nil interface \<open>Of\<close> returns a nil \<open>*int\<close>, for
  which \<open>IsNil\<close> holds, and which is not the nil interface.
\<close>

theorem Nil_Of_interface_value:
  "Nil_Of test_store ts_ptr = Inl (PanicMsg ''not an interface type'') \<and>
   Nil_Of test_store None = Inr (Some (PtrT (Basic TInt), DRef 0)) \<and>
   IsNil test_store (Some (PtrT (Basic TInt), DRef 0)) = Inr True"
  by (simp add: Nil_Of_def IsNil_def Value_IsNil_def and_then_def ts_ptr_def)

end
